theory Spec2Isabelle
  imports Main
begin

section \<open>The OpenCL extension table of \<^verbatim>\<open>dlls/opencl/extensions.h\<close>\<close>

subsection \<open>Data model\<close>

text \<open>
  Both fields of \<^verbatim>\<open>struct extension_info\<close> are C pointers, and a C pointer may be
  null. A pointer is therefore either \<open>Null\<close> or \<open>Ptr x\<close>, where \<open>x\<close> is what it
  points to.
\<close>

datatype 'a ptr = Null | Ptr 'a

text \<open>
  The functions the header declares. It declares one,
  \<^verbatim>\<open>void* cl_khr_d3d10_sharing_get_function(const char*);\<close>
  and a function pointer of type \<^verbatim>\<open>void* (*)(const char*)\<close> that is not null holds
  the address of a declared function.
\<close>

datatype func = cl_khr_d3d10_sharing_get_function

text \<open>
  \<^verbatim>\<open>
  struct extension_info {
      const char *name;
      void* (*get_function)(const char*);
  };
  \<close>
\<close>

record extension_info =
  name :: "string ptr"
  get_function :: "func ptr"

text \<open>
  The header only declares \<^verbatim>\<open>cl_khr_d3d10_sharing_get_function\<close>; its body is linked
  in from elsewhere. What the declared functions compute is a parameter of the model: for
  each declared function, a map from the symbol name to the \<^verbatim>\<open>void*\<close> it returns
  (\<open>Null\<close>, or the address \<open>Ptr a\<close> of an entry point).
\<close>

type_synonym 'a linkage = "func \<Rightarrow> string \<Rightarrow> 'a ptr"

subsection \<open>The table\<close>

text \<open>
  \<^verbatim>\<open>
  static struct extension_info known_extensions[] = {
      {"cl_khr_d3d10_sharing", cl_khr_d3d10_sharing_get_function}
  };
  \<close>
\<close>

definition known_extensions :: "extension_info list" where
  "known_extensions =
     [\<lparr>name = Ptr ''cl_khr_d3d10_sharing'',
       get_function = Ptr cl_khr_d3d10_sharing_get_function\<rparr>]"

subsection \<open>The two operations on the table\<close>

text \<open>
  The header holds data only; the code that searches the table and calls through it is
  not part of it. The two operations are modelled from their specification, over the C
  data above. Reading through a null \<open>name\<close> and calling through a null
  \<open>get_function\<close> are the two ways such code can go wrong, and the model keeps them as
  results of their own.
\<close>

datatype fault = NullDeref | NullCall

text \<open>
  Modelled from the spec: the search behind \<open>find_extension\<close>, which the header does not
  contain. The entries are visited in table order and each name is compared with the
  requested one character for character (\<^verbatim>\<open>strcmp(...) == 0\<close>); the first entry
  whose name is equal is the result, and a table with no such entry gives not-found
  (\<open>Inr None\<close>). Comparing reads the entry's name, so a null name is a fault.
\<close>

fun lookup_name :: "extension_info list \<Rightarrow> string \<Rightarrow> fault + extension_info option" where
  "lookup_name [] n = Inr None"
| "lookup_name (e # es) n =
     (case name e of
        Null \<Rightarrow> Inl NullDeref
      | Ptr s \<Rightarrow> if s = n then Inr (Some e) else lookup_name es n)"

text \<open>
  Modelled from the spec: \<open>find_extension(name) -> optional(ExtensionEntry)\<close>, which the
  header does not contain: "the matching entry if \<open>name\<close> equals some registered
  entry's \<open>name\<close> (exact, case-sensitive match); otherwise not found". The registry
  searched is the table of the header.
\<close>

definition find_extension :: "string \<Rightarrow> fault + extension_info option" where
  "find_extension n = lookup_name known_extensions n"

text \<open>
  Modelled from the spec: \<open>resolve_function(entry, symbol_name) -> optional(function-address)\<close>,
  which the header does not contain: it "delegates to \<open>entry.resolver(symbol_name)\<close>",
  the C call \<^verbatim>\<open>entry->get_function(symbol_name)\<close>. A null pointer cannot be called;
  any other holds the address of a declared function, which is run on the symbol name,
  and what it returns is the result.
\<close>

definition resolve_function :: "'a linkage \<Rightarrow> extension_info \<Rightarrow> string \<Rightarrow> fault + 'a ptr" where
  "resolve_function link e s =
     (case get_function e of Null \<Rightarrow> Inl NullCall | Ptr f \<Rightarrow> Inr (link f s))"

section \<open>The search on any table\<close>

text \<open>A table is well formed when no entry has a null name.\<close>

lemma lookup_name_returns:
  "\<forall>e \<in> set t. name e \<noteq> Null \<Longrightarrow> \<exists>r. lookup_name t n = Inr r"
proof (induction t)
  case Nil
  show ?case by simp
next
  case (Cons e es)
  then obtain s where s: "name e = Ptr s"
    by (cases "name e") auto
  from Cons have "\<exists>r. lookup_name es n = Inr r"
    by simp
  with s show ?case
    by simp
qed

text \<open>What the search returns is an entry of the table, and it carries the requested name.\<close>

lemma lookup_name_sound:
  "lookup_name t n = Inr (Some e) \<Longrightarrow> e \<in> set t \<and> name e = Ptr n"
  by (induction t) (auto split: ptr.splits if_splits)

text \<open>Not-found means that every name was read and none was the requested one.\<close>

lemma lookup_name_not_found:
  "lookup_name t n = Inr None \<longleftrightarrow> (\<forall>e \<in> set t. \<exists>s. name e = Ptr s \<and> s \<noteq> n)"
  by (induction t) (auto split: ptr.splits)

text \<open>
  On a well-formed table whose names are pairwise different, every entry is found under
  its own name.
\<close>

lemma lookup_name_complete:
  assumes "\<forall>x \<in> set t. name x \<noteq> Null" and "distinct (map name t)"
    and "e \<in> set t" and "name e = Ptr n"
  shows "lookup_name t n = Inr (Some e)"
  using assms
proof (induction t)
  case Nil
  then show ?case by simp
next
  case (Cons x xs)
  show ?case
  proof (cases "x = e")
    case True
    with Cons.prems(4) show ?thesis by simp
  next
    case False
    with Cons.prems(3) have mem: "e \<in> set xs" by simp
    from Cons.prems(2) have "name x \<notin> name ` set xs" and d: "distinct (map name xs)"
      by simp_all
    with mem have "name x \<noteq> name e" by force
    moreover obtain s where s: "name x = Ptr s"
      using Cons.prems(1) by (cases "name x") auto
    ultimately have "s \<noteq> n" using Cons.prems(4) by auto
    moreover from Cons.prems(1) have "\<forall>y \<in> set xs. name y \<noteq> Null" by simp
    ultimately show ?thesis
      using s Cons.IH [OF _ d mem Cons.prems(4)] by simp
  qed
qed

section \<open>Calling through an entry\<close>

lemma resolve_function_null_call:
  "resolve_function link e s = Inl NullCall \<longleftrightarrow> get_function e = Null"
  by (cases "get_function e") (simp_all add: resolve_function_def)

lemma resolve_function_returns:
  "get_function e \<noteq> Null \<Longrightarrow> \<exists>a. resolve_function link e s = Inr a"
  by (cases "get_function e") (simp_all add: resolve_function_def)

section \<open>The table of the header\<close>

lemma known_extensions_names_not_null:
  "\<forall>e \<in> set known_extensions. name e \<noteq> Null"
  by (simp add: known_extensions_def)

lemma known_extensions_resolvers_not_null:
  "\<forall>e \<in> set known_extensions. get_function e \<noteq> Null"
  by (simp add: known_extensions_def)

text \<open>
  C4. The names in the table are pairwise different: no name occurs at two places of
  \<open>known_extensions\<close>.
\<close>

theorem known_extensions_names_distinct:
  "distinct (map name known_extensions)"
  by (simp add: known_extensions_def)

text \<open>
  C9. The table has exactly one entry, and its name is \<open>cl_khr_d3d10_sharing\<close>; so the
  search for any other string ends with not-found.
\<close>

theorem known_extensions_single:
  "length known_extensions = 1 \<and>
   map name known_extensions = [Ptr ''cl_khr_d3d10_sharing''] \<and>
   (n \<noteq> ''cl_khr_d3d10_sharing'' \<longrightarrow> find_extension n = Inr None)"
  by (simp add: known_extensions_def find_extension_def)

theorem known_extensions_single_witness:
  "''cl_khr_d3d11_sharing'' \<noteq> ''cl_khr_d3d10_sharing'' \<and>
   find_extension ''cl_khr_d3d11_sharing'' = Inr None"
proof -
  have other: "''cl_khr_d3d11_sharing'' \<noteq> ''cl_khr_d3d10_sharing''"
    by simp
  with known_extensions_single [of "''cl_khr_d3d11_sharing''"] show ?thesis
    by blast
qed

text \<open>
  C10. In every entry of the table neither pointer is null: the name points to a string
  and \<open>get_function\<close> holds the address of the declared function
  \<open>cl_khr_d3d10_sharing_get_function\<close>. Hence \<open>resolve_function\<close> on an entry of the
  table never calls through a null pointer, whatever the symbol name and whatever the
  declared function is linked to.
\<close>

theorem known_extensions_pointers:
  "e \<in> set known_extensions \<Longrightarrow>
     name e \<noteq> Null \<and> get_function e \<noteq> Null \<and>
     get_function e = Ptr cl_khr_d3d10_sharing_get_function \<and>
     resolve_function link e s \<noteq> Inl NullCall"
proof -
  assume "e \<in> set known_extensions"
  then have e: "e = \<lparr>name = Ptr ''cl_khr_d3d10_sharing'',
                      get_function = Ptr cl_khr_d3d10_sharing_get_function\<rparr>"
    by (simp add: known_extensions_def)
  then have "get_function e \<noteq> Null"
    by simp
  then have "resolve_function link e s \<noteq> Inl NullCall"
    by (simp add: resolve_function_null_call)
  with e show ?thesis
    by simp
qed

theorem known_extensions_pointers_witness:
  "\<lparr>name = Ptr ''cl_khr_d3d10_sharing'',
     get_function = Ptr cl_khr_d3d10_sharing_get_function\<rparr> \<in> set known_extensions \<and>
   resolve_function (\<lambda>f s. Null :: nat ptr)
     \<lparr>name = Ptr ''cl_khr_d3d10_sharing'',
       get_function = Ptr cl_khr_d3d10_sharing_get_function\<rparr>
     ''clGetDeviceIDsFromD3D10KHR'' \<noteq> Inl NullCall"
proof -
  let ?e = "\<lparr>name = Ptr ''cl_khr_d3d10_sharing'',
             get_function = Ptr cl_khr_d3d10_sharing_get_function\<rparr>"
  have mem: "?e \<in> set known_extensions"
    by (simp add: known_extensions_def)
  from known_extensions_pointers [OF mem] mem show ?thesis
    by blast
qed

section \<open>Searching the table of the header\<close>

text \<open>
  C1. \<open>find_extension\<close> returns an entry exactly when that entry is in the table and its
  name is the requested string, compared character for character; it returns not-found
  exactly when no entry of the table has the requested name, as for
  \<open>cl_khr_gl_sharing\<close>.
\<close>

theorem find_extension_matches:
  "(find_extension n = Inr (Some e) \<longleftrightarrow> e \<in> set known_extensions \<and> name e = Ptr n) \<and>
   (find_extension n = Inr None \<longleftrightarrow> (\<forall>x \<in> set known_extensions. name x \<noteq> Ptr n)) \<and>
   find_extension ''cl_khr_gl_sharing'' = Inr None"
proof (intro conjI)
  have d: "distinct (map name known_extensions)"
    by (simp add: known_extensions_def)
  show "find_extension n = Inr (Some e) \<longleftrightarrow> e \<in> set known_extensions \<and> name e = Ptr n"
    unfolding find_extension_def
    using lookup_name_sound [of known_extensions n e]
      lookup_name_complete [OF known_extensions_names_not_null d, of e n]
    by blast
next
  have "(\<forall>x \<in> set known_extensions. \<exists>s. name x = Ptr s \<and> s \<noteq> n) \<longleftrightarrow>
        (\<forall>x \<in> set known_extensions. name x \<noteq> Ptr n)"
    using known_extensions_names_not_null by (metis ptr.exhaust ptr.inject)
  then show "find_extension n = Inr None \<longleftrightarrow> (\<forall>x \<in> set known_extensions. name x \<noteq> Ptr n)"
    by (simp add: find_extension_def lookup_name_not_found)
next
  show "find_extension ''cl_khr_gl_sharing'' = Inr None"
    by (simp add: find_extension_def known_extensions_def)
qed

theorem find_extension_matches_witness:
  "find_extension ''CL_KHR_D3D10_SHARING'' = Inr None \<and>
   find_extension ''cl_khr_d3d10_sharing'' =
     Inr (Some \<lparr>name = Ptr ''cl_khr_d3d10_sharing'',
                 get_function = Ptr cl_khr_d3d10_sharing_get_function\<rparr>)"
proof -
  let ?e = "\<lparr>name = Ptr ''cl_khr_d3d10_sharing'',
             get_function = Ptr cl_khr_d3d10_sharing_get_function\<rparr>"
  have absent: "\<forall>x \<in> set known_extensions. name x \<noteq> Ptr ''CL_KHR_D3D10_SHARING''"
    by (simp add: known_extensions_def)
  have present: "?e \<in> set known_extensions \<and> name ?e = Ptr ''cl_khr_d3d10_sharing''"
    by (simp add: known_extensions_def)
  from absent present show ?thesis
    using find_extension_matches [of "''CL_KHR_D3D10_SHARING''"]
      find_extension_matches [of "''cl_khr_d3d10_sharing''" ?e]
    by blast
qed

text \<open>
  C2. \<open>find_extension\<close> on \<open>cl_khr_d3d10_sharing\<close> returns the entry of the table whose
  name is \<open>cl_khr_d3d10_sharing\<close> and whose resolver is
  \<open>cl_khr_d3d10_sharing_get_function\<close>.
\<close>

theorem find_extension_d3d10_sharing:
  "find_extension ''cl_khr_d3d10_sharing'' =
     Inr (Some \<lparr>name = Ptr ''cl_khr_d3d10_sharing'',
                 get_function = Ptr cl_khr_d3d10_sharing_get_function\<rparr>) \<and>
   \<lparr>name = Ptr ''cl_khr_d3d10_sharing'',
     get_function = Ptr cl_khr_d3d10_sharing_get_function\<rparr> \<in> set known_extensions"
  by (simp add: find_extension_def known_extensions_def)

text \<open>
  C6. Neither operation ends in a fault. For every string \<open>find_extension\<close> returns,
  and its result is an entry or not-found; \<open>resolve_function\<close> on an entry that
  \<open>find_extension\<close> returned, with any symbol name, returns what the resolver returned,
  an address or null. Not recognised is reported by the absent result only.
\<close>

theorem operations_return:
  "(\<exists>r. find_extension n = Inr r) \<and>
   (find_extension n = Inr (Some e) \<longrightarrow> (\<exists>a. resolve_function link e s = Inr a))"
proof
  show "\<exists>r. find_extension n = Inr r"
    unfolding find_extension_def
    by (rule lookup_name_returns [OF known_extensions_names_not_null])
next
  show "find_extension n = Inr (Some e) \<longrightarrow> (\<exists>a. resolve_function link e s = Inr a)"
  proof
    assume "find_extension n = Inr (Some e)"
    then have "e \<in> set known_extensions"
      unfolding find_extension_def by (rule lookup_name_sound [THEN conjunct1])
    then have "get_function e \<noteq> Null"
      using known_extensions_resolvers_not_null by blast
    then show "\<exists>a. resolve_function link e s = Inr a"
      by (rule resolve_function_returns)
  qed
qed

theorem operations_return_witness:
  "find_extension ''cl_khr_d3d10_sharing'' =
     Inr (Some \<lparr>name = Ptr ''cl_khr_d3d10_sharing'',
                 get_function = Ptr cl_khr_d3d10_sharing_get_function\<rparr>) \<and>
   (\<exists>a. resolve_function
          (\<lambda>f s. if s = ''clGetDeviceIDsFromD3D10KHR'' then Ptr (4096::nat) else Null)
          \<lparr>name = Ptr ''cl_khr_d3d10_sharing'',
            get_function = Ptr cl_khr_d3d10_sharing_get_function\<rparr>
          ''clCreateFromD3D10BufferKHR'' = Inr a)"
proof -
  let ?e = "\<lparr>name = Ptr ''cl_khr_d3d10_sharing'',
             get_function = Ptr cl_khr_d3d10_sharing_get_function\<rparr>"
  have found: "find_extension ''cl_khr_d3d10_sharing'' = Inr (Some ?e)"
    by (simp add: find_extension_def known_extensions_def)
  with operations_return [of "''cl_khr_d3d10_sharing''" ?e] show ?thesis
    by blast
qed

end
